theory Spec2Isabelle
  imports Main
begin

section \<open>The addon selection view of OpenAndroidInstaller\<close>

text \<open>
  A shallow embedding of \<^verbatim>\<open>src/openandroidinstaller/views/addon_view.py\<close>: the class
  \<^verbatim>\<open>AddonsView\<close> with its methods \<^verbatim>\<open>build\<close> and \<^verbatim>\<open>pick_addons_result\<close>.
  Python strings are \<^typ>\<open>string\<close>, attributes of \<^verbatim>\<open>self\<close> are fields of a record that
  each method takes and returns, and a raise is the \<open>Inl\<close> branch of a sum.
\<close>

subsection \<open>Python string and list operations used by the view\<close>

datatype error = IndexError

text \<open>\<^verbatim>\<open>s.split(sep)\<close> for a one-character separator: the pieces between the separators.\<close>

fun split :: "string \<Rightarrow> char \<Rightarrow> string list" where
  "split [] sep = [[]]"
| "split (c # cs) sep =
     (if c = sep then [] # split cs sep
      else (case split cs sep of
              [] \<Rightarrow> [[c]]
            | p # ps \<Rightarrow> (c # p) # ps))"

text \<open>\<^verbatim>\<open>xs[0]\<close>: raises IndexError on the empty list.\<close>

definition getitem0 :: "'a list \<Rightarrow> error + 'a" where
  "getitem0 xs = (case xs of [] \<Rightarrow> Inl IndexError | x # _ \<Rightarrow> Inr x)"

text \<open>\<^verbatim>\<open>sep.join(xs)\<close>.\<close>

fun join :: "string \<Rightarrow> string list \<Rightarrow> string" where
  "join sep [] = []"
| "join sep [x] = x"
| "join sep (x # y # ys) = x @ sep @ join sep (y # ys)"

subsection \<open>The data the view works on\<close>

text \<open>
  The toolkit's \<^verbatim>\<open>FilePickerFile\<close> and \<^verbatim>\<open>FilePickerResultEvent\<close>: a picked file has a
  display name and a filesystem path; the event's \<^verbatim>\<open>files\<close> is \<^verbatim>\<open>None\<close> when the dialog
  was cancelled and the list of picked files otherwise.
\<close>

record FilePickerFile =
  name :: string
  path :: string

record FilePickerResultEvent =
  files :: "FilePickerFile list option"

text \<open>
  Modelled from the spec: \<^verbatim>\<open>AppState\<close> is declared in \<^verbatim>\<open>app_state.py\<close>, which is not
  among the sources. The view uses only its attribute \<^verbatim>\<open>addon_paths\<close>, which the spec
  describes as an ordered sequence of strings, readable and writable by any step.
\<close>

record AppState =
  addon_paths :: "string list"

text \<open>
  The toolkit's \<^verbatim>\<open>FilePicker.pick_files\<close> opens the native dialog; the model records
  the arguments of each call.
\<close>

record pick_files_call =
  allow_multiple :: bool
  file_type :: string
  allowed_extensions :: "string list"

record FilePicker =
  calls :: "pick_files_call list"

definition pick_files :: "FilePicker \<Rightarrow> bool \<Rightarrow> string \<Rightarrow> string list \<Rightarrow> FilePicker" where
  "pick_files dlg multiple ftype exts =
     dlg\<lparr>calls := calls dlg @
       [\<lparr>allow_multiple = multiple, file_type = ftype, allowed_extensions = exts\<rparr>]\<rparr>"

text \<open>
  A button of the toolkit: its handler acts on the world \<^typ>\<open>'w\<close> outside the view, and a
  disabled button does not fire.
\<close>

record 'w Button =
  on_click :: "'w \<Rightarrow> 'w"
  disabled :: bool

definition click :: "'w Button \<Rightarrow> 'w \<Rightarrow> 'w" where
  "click b w = (if disabled b then w else on_click b w)"

text \<open>
  Modelled from the spec: \<^verbatim>\<open>confirm_button\<close> is imported from \<^verbatim>\<open>widgets\<close>, which is
  not among the sources. The spec: a confirm control that, when activated, invokes the
  callback unconditionally; confirmation is always enabled.
\<close>

definition confirm_button :: "('w \<Rightarrow> 'w) \<Rightarrow> 'w Button" where
  "confirm_button confirm_func = \<lparr>on_click = confirm_func, disabled = False\<rparr>"

text \<open>
  The two \<^verbatim>\<open>logger.info\<close> calls of \<^verbatim>\<open>pick_addons_result\<close>; the first carries the
  selected paths.
\<close>

datatype log_record = Selected_addons "string list" | No_addons_selected

text \<open>
  The attributes of an \<^verbatim>\<open>AddonsView\<close> after \<^verbatim>\<open>build\<close>. \<^verbatim>\<open>selected_addons\<close> is the
  value of the text control of that name and \<open>update_calls\<close> counts its \<^verbatim>\<open>update()\<close>
  calls. \<^verbatim>\<open>self.addon_paths\<close> is not assigned before the first selection: \<open>None\<close>.
\<close>

record 'w AddonsView =
  state :: AppState
  on_confirm :: "'w \<Rightarrow> 'w"
  pick_addons_dialog :: FilePicker
  selected_addons :: string
  update_calls :: nat
  self_confirm_button :: "'w Button"
  self_addon_paths :: "string list option"
  logged :: "log_record list"

subsection \<open>The methods\<close>

text \<open>
  \<^verbatim>\<open>AddonsView(state, on_confirm).build()\<close>, as far as the attributes above go; the help
  dialog, the title and the three download buttons touch none of them. The two lines that
  would disable the confirm button are comments in the source.
\<close>

definition build :: "AppState \<Rightarrow> ('w \<Rightarrow> 'w) \<Rightarrow> 'w AddonsView" where
  "build st confirm_func =
     \<lparr>state = st,
      on_confirm = confirm_func,
      pick_addons_dialog = \<lparr>calls = []\<rparr>,
      selected_addons = ''Selected addons: '',
      update_calls = 0,
      self_confirm_button = confirm_button confirm_func,
      self_addon_paths = None,
      logged = []\<rparr>"

text \<open>The handler of the button "Pick the addons you want to install".\<close>

definition pick_button_on_click :: "'w AddonsView \<Rightarrow> 'w AddonsView" where
  "pick_button_on_click self =
     self\<lparr>pick_addons_dialog :=
       pick_files (pick_addons_dialog self) True ''custom'' [''zip'']\<rparr>"

text \<open>Activating the confirm control placed in the last row of the view.\<close>

definition click_confirm :: "'w AddonsView \<Rightarrow> 'w \<Rightarrow> 'w" where
  "click_confirm self w = click (self_confirm_button self) w"

text \<open>
  \<^verbatim>\<open>pick_addons_result\<close>. The test \<^verbatim>\<open>if e.files\<close> is Python truthiness: \<^verbatim>\<open>None\<close> and the
  empty list both take the else branch.
\<close>

definition pick_addons_result ::
    "'w AddonsView \<Rightarrow> FilePickerResultEvent \<Rightarrow> error + 'w AddonsView" where
  "pick_addons_result self e =
     (let shown = (case files e of
                     Some (f # fs) \<Rightarrow> join '', '' (map name (f # fs))
                   | _ \<Rightarrow> ''Cancelled!'')
      in case getitem0 (split (selected_addons self) CHR '':'') of
           Inl err \<Rightarrow> Inl err
         | Inr pre \<Rightarrow>
             (let self1 = self\<lparr>selected_addons := pre @ '': '' @ shown\<rparr>;
                  self2 = (case files e of
                             Some (f # fs) \<Rightarrow>
                               (let paths = map path (f # fs)
                                in self1\<lparr>self_addon_paths := Some paths,
                                         state := (state self1)\<lparr>addon_paths := paths\<rparr>,
                                         logged := logged self1 @ [Selected_addons paths]\<rparr>)
                           | _ \<Rightarrow> self1\<lparr>logged := logged self1 @ [No_addons_selected]\<rparr>)
              in Inr (self2\<lparr>update_calls := Suc (update_calls self2)\<rparr>)))"

text \<open>
  The picker delivers its result events one after the other; a raise of the handler ends
  the run.
\<close>

fun run_events :: "'w AddonsView \<Rightarrow> FilePickerResultEvent list \<Rightarrow> error + 'w AddonsView" where
  "run_events self [] = Inr self"
| "run_events self (e # es) =
     (case pick_addons_result self e of
        Inl err \<Rightarrow> Inl err
      | Inr self' \<Rightarrow> run_events self' es)"

text \<open>The label's prefix in the spec's words: the text before the first colon.\<close>

definition label_prefix :: "string \<Rightarrow> string" where
  "label_prefix s = takeWhile (\<lambda>c. c \<noteq> CHR '':'') s"

section \<open>Properties\<close>

subsection \<open>The prefix that the handler reads\<close>

lemma split_not_Nil: "split s sep \<noteq> []"
  by (induction s) (auto split: list.splits)

lemma hd_split: "hd (split s sep) = takeWhile (\<lambda>c. c \<noteq> sep) s"
  by (induction s) (auto split: list.splits simp: split_not_Nil)

lemma getitem0_split: "getitem0 (split s CHR '':'') = Inr (label_prefix s)"
proof (cases "split s CHR '':''")
  case Nil
  then show ?thesis by (simp add: split_not_Nil)
next
  case (Cons p ps)
  then have "p = label_prefix s"
    using hd_split [of s "CHR '':''"] by (simp add: label_prefix_def)
  with Cons show ?thesis by (simp add: getitem0_def)
qed

subsection \<open>What one call of the handler does\<close>

lemma pick_selected:
  assumes "files e = Some (f # fs)"
  shows "pick_addons_result self e =
     Inr (self\<lparr>selected_addons :=
                 label_prefix (selected_addons self) @ '': '' @ join '', '' (map name (f # fs)),
               self_addon_paths := Some (map path (f # fs)),
               state := (state self)\<lparr>addon_paths := map path (f # fs)\<rparr>,
               logged := logged self @ [Selected_addons (map path (f # fs))],
               update_calls := Suc (update_calls self)\<rparr>)"
  using assms by (simp add: pick_addons_result_def getitem0_split Let_def)

lemma pick_cancelled:
  assumes "files e = None \<or> files e = Some []"
  shows "pick_addons_result self e =
     Inr (self\<lparr>selected_addons := label_prefix (selected_addons self) @ '': Cancelled!'',
               logged := logged self @ [No_addons_selected],
               update_calls := Suc (update_calls self)\<rparr>)"
  using assms by (auto simp add: pick_addons_result_def getitem0_split Let_def)

lemma files_cases:
  obtains (cancelled) "files e = None \<or> files e = Some []"
        | (selected) f fs where "files e = Some (f # fs)"
  by (cases "files e") (auto simp: neq_Nil_conv, metis list.exhaust)

lemma label_prefix_append: "label_prefix (label_prefix s @ CHR '':'' # t) = label_prefix s"
  unfolding label_prefix_def by (induction s) auto

lemma pick_total: "\<exists>self'. pick_addons_result self e = Inr self'"
  by (cases e rule: files_cases) (simp_all only: pick_selected pick_cancelled, blast+)

lemma pick_label_prefix:
  assumes "pick_addons_result self e = Inr self'"
  shows "label_prefix (selected_addons self') = label_prefix (selected_addons self)"
proof (cases e rule: files_cases)
  case cancelled
  from pick_cancelled [OF cancelled, of self] assms
  have "selected_addons self' = label_prefix (selected_addons self) @ CHR '':'' # '' Cancelled!''"
    by auto
  then show ?thesis by (simp only: label_prefix_append)
next
  case (selected f fs)
  from pick_selected [OF selected, of self] assms
  have "selected_addons self' =
      label_prefix (selected_addons self) @ CHR '':'' # CHR '' '' # join '', '' (map name (f # fs))"
    by auto
  then show ?thesis by (simp only: label_prefix_append)
qed

lemma pick_confirm_button:
  assumes "pick_addons_result self e = Inr self'"
  shows "self_confirm_button self' = self_confirm_button self"
proof (cases e rule: files_cases)
  case cancelled
  from pick_cancelled [OF cancelled, of self] assms show ?thesis by auto
next
  case (selected f fs)
  from pick_selected [OF selected, of self] assms show ?thesis by auto
qed

lemma run_events_total: "\<exists>self'. run_events self es = Inr self'"
proof (induction es arbitrary: self)
  case Nil
  show ?case by simp
next
  case (Cons e es)
  obtain self1 where "pick_addons_result self e = Inr self1"
    using pick_total by blast
  with Cons.IH [of self1] show ?case by simp
qed

lemma run_events_label_prefix:
  "run_events self es = Inr self' \<Longrightarrow>
   label_prefix (selected_addons self') = label_prefix (selected_addons self)"
proof (induction es arbitrary: self)
  case Nil
  then show ?case by simp
next
  case (Cons e es)
  obtain self1 where s1: "pick_addons_result self e = Inr self1"
    using pick_total by blast
  with Cons.prems have "run_events self1 es = Inr self'" by simp
  then have "label_prefix (selected_addons self') = label_prefix (selected_addons self1)"
    by (rule Cons.IH)
  with pick_label_prefix [OF s1] show ?case by simp
qed

lemma run_events_confirm_button:
  "run_events self es = Inr self' \<Longrightarrow> self_confirm_button self' = self_confirm_button self"
proof (induction es arbitrary: self)
  case Nil
  then show ?case by simp
next
  case (Cons e es)
  obtain self1 where s1: "pick_addons_result self e = Inr self1"
    using pick_total by blast
  with Cons.prems have "run_events self1 es = Inr self'" by simp
  then have "self_confirm_button self' = self_confirm_button self1"
    by (rule Cons.IH)
  with pick_confirm_button [OF s1] show ?case by simp
qed

subsection \<open>The confirm control\<close>

lemma click_confirm_build: "click_confirm (build st confirm_func) w = confirm_func w"
  by (simp add: click_confirm_def click_def build_def confirm_button_def)

lemma click_confirm_run_events:
  "\<exists>self'. run_events (build st confirm_func) es = Inr self' \<and>
     click_confirm self' w = confirm_func w"
proof -
  obtain self' where r: "run_events (build st confirm_func) es = Inr self'"
    using run_events_total by blast
  from run_events_confirm_button [OF r]
  have "click_confirm self' w = click_confirm (build st confirm_func) w"
    by (simp add: click_confirm_def)
  with r show ?thesis by (simp add: click_confirm_build)
qed

section \<open>The claims\<close>

text \<open>
  C1: for every non-empty list of files, after the handler has processed the result
  carrying it, the shared state's \<^verbatim>\<open>addon_paths\<close> is the list of the files' paths in the
  order of the input, and the view's own \<^verbatim>\<open>addon_paths\<close> holds the same list.
\<close>

theorem selection_writes_paths:
  assumes "fs \<noteq> []" and "files e = Some fs"
  shows "\<exists>self'. pick_addons_result self e = Inr self' \<and>
           addon_paths (state self') = map path fs \<and>
           self_addon_paths self' = Some (addon_paths (state self'))"
proof -
  from assms obtain f fs' where e: "files e = Some (f # fs')" and fs: "fs = f # fs'"
    by (cases fs) auto
  show ?thesis
    unfolding fs by (simp add: pick_selected [OF e])
qed

theorem selection_writes_paths_witness:
  "[\<lparr>name = ''MindTheGapps.zip'', path = ''/tmp/a.zip''\<rparr>] \<noteq> [] \<and>
   (\<exists>self'. pick_addons_result (build \<lparr>addon_paths = []\<rparr> (id :: unit \<Rightarrow> unit))
               \<lparr>files = Some [\<lparr>name = ''MindTheGapps.zip'', path = ''/tmp/a.zip''\<rparr>]\<rparr> = Inr self' \<and>
            addon_paths (state self') = [''/tmp/a.zip''] \<and>
            self_addon_paths self' = Some [''/tmp/a.zip''])"
  using selection_writes_paths
    [of "[\<lparr>name = ''MindTheGapps.zip'', path = ''/tmp/a.zip''\<rparr>]"
        "\<lparr>files = Some [\<lparr>name = ''MindTheGapps.zip'', path = ''/tmp/a.zip''\<rparr>]\<rparr>"
        "build \<lparr>addon_paths = []\<rparr> (id :: unit \<Rightarrow> unit)"]
  by auto

text \<open>
  C2: whatever the shared state's \<^verbatim>\<open>addon_paths\<close> was, a cancelled result (no files
  payload) and a result with an empty file list leave it as it was: the handler does not
  write the shared state on that branch, nor the view's own \<^verbatim>\<open>addon_paths\<close>.
\<close>

theorem cancel_keeps_state:
  assumes "files e = None \<or> files e = Some []"
  shows "\<exists>self'. pick_addons_result self e = Inr self' \<and>
           state self' = state self \<and>
           addon_paths (state self') = addon_paths (state self) \<and>
           self_addon_paths self' = self_addon_paths self"
  by (simp add: pick_cancelled [OF assms])

theorem cancel_keeps_state_witness:
  "(files \<lparr>files = None\<rparr> = None \<or> files \<lparr>files = None\<rparr> = Some []) \<and>
   (\<exists>self'. pick_addons_result (build \<lparr>addon_paths = [''/tmp/a.zip'']\<rparr> (id :: unit \<Rightarrow> unit))
               \<lparr>files = None\<rparr> = Inr self' \<and>
            addon_paths (state self') = [''/tmp/a.zip'']) \<and>
   (files \<lparr>files = Some []\<rparr> = None \<or> files \<lparr>files = Some []\<rparr> = Some []) \<and>
   (\<exists>self'. pick_addons_result (build \<lparr>addon_paths = [''/tmp/a.zip'']\<rparr> (id :: unit \<Rightarrow> unit))
               \<lparr>files = Some []\<rparr> = Inr self' \<and>
            addon_paths (state self') = [''/tmp/a.zip''])"
  using cancel_keeps_state
      [of "\<lparr>files = None\<rparr>" "build \<lparr>addon_paths = [''/tmp/a.zip'']\<rparr> (id :: unit \<Rightarrow> unit)"]
    cancel_keeps_state
      [of "\<lparr>files = Some []\<rparr>" "build \<lparr>addon_paths = [''/tmp/a.zip'']\<rparr> (id :: unit \<Rightarrow> unit)"]
  by (auto simp: build_def)

text \<open>
  C3, as stated: only a result without files payload gets the label "Cancelled", a result
  carrying an empty file list does not. The handler tests \<^verbatim>\<open>e.files\<close> for truthiness, so
  the empty list gets the same label: on the freshly built view it is
  "Selected addons: Cancelled!".
\<close>

theorem empty_selection_label_counterexample:
  "map_sum id selected_addons
     (pick_addons_result (build \<lparr>addon_paths = []\<rparr> (id :: unit \<Rightarrow> unit)) \<lparr>files = Some []\<rparr>)
   = Inr ''Selected addons: Cancelled!''"
  by (simp add: pick_cancelled build_def label_prefix_def)

text \<open>
  C3, amended: a result without files payload and a result carrying an empty file list
  are handled alike; each sets the label to its prefix followed by ": Cancelled!" and
  neither writes the shared state.
\<close>

theorem empty_selection_handled_as_cancelled:
  "pick_addons_result self \<lparr>files = Some []\<rparr> = pick_addons_result self \<lparr>files = None\<rparr> \<and>
   (\<exists>self'. pick_addons_result self \<lparr>files = None\<rparr> = Inr self' \<and>
       selected_addons self' = label_prefix (selected_addons self) @ '': Cancelled!'' \<and>
       state self' = state self)"
  by (simp add: pick_cancelled)

text \<open>
  C4, as stated for every list of files: the label becomes the prefix, ": " and the
  joined names, and the paths are written to the shared state. At the empty list the
  label is not the prefix followed by ": " and the (empty) joined names, and the shared
  state keeps its paths instead of receiving the (empty) list of paths.
\<close>

theorem selection_label_counterexample:
  "map_sum id selected_addons
     (pick_addons_result (build \<lparr>addon_paths = [''/old.zip'']\<rparr> (id :: unit \<Rightarrow> unit))
        \<lparr>files = Some []\<rparr>)
   \<noteq> Inr (label_prefix ''Selected addons: '' @ '': '' @ join '', '' (map name [])) \<and>
   map_sum id (addon_paths \<circ> state)
     (pick_addons_result (build \<lparr>addon_paths = [''/old.zip'']\<rparr> (id :: unit \<Rightarrow> unit))
        \<lparr>files = Some []\<rparr>)
   \<noteq> Inr (map path [])"
  by (simp add: pick_cancelled build_def label_prefix_def)

text \<open>
  C4, amended: for every non-empty list of files with arbitrary names and paths, the
  handler sets the label to the label's existing prefix followed by ": " and the files'
  names joined by ", ", and writes the paths, not the names, to the shared state.
\<close>

theorem selection_label_and_paths:
  assumes "fs \<noteq> []" and "files e = Some fs"
  shows "\<exists>self'. pick_addons_result self e = Inr self' \<and>
           selected_addons self' =
             label_prefix (selected_addons self) @ '': '' @ join '', '' (map name fs) \<and>
           addon_paths (state self') = map path fs"
proof -
  from assms obtain f fs' where e: "files e = Some (f # fs')" and fs: "fs = f # fs'"
    by (cases fs) auto
  show ?thesis
    unfolding fs by (simp add: pick_selected [OF e])
qed

theorem selection_label_and_paths_witness:
  "[\<lparr>name = ''a.zip'', path = ''/x/a.zip''\<rparr>, \<lparr>name = ''b.zip'', path = ''/x/b.zip''\<rparr>] \<noteq> [] \<and>
   (\<exists>self'. pick_addons_result (build \<lparr>addon_paths = []\<rparr> (id :: unit \<Rightarrow> unit))
               \<lparr>files = Some [\<lparr>name = ''a.zip'', path = ''/x/a.zip''\<rparr>,
                               \<lparr>name = ''b.zip'', path = ''/x/b.zip''\<rparr>]\<rparr> = Inr self' \<and>
            selected_addons self' = ''Selected addons: a.zip, b.zip'' \<and>
            addon_paths (state self') = [''/x/a.zip'', ''/x/b.zip''])"
  using selection_label_and_paths
    [of "[\<lparr>name = ''a.zip'', path = ''/x/a.zip''\<rparr>, \<lparr>name = ''b.zip'', path = ''/x/b.zip''\<rparr>]"
        "\<lparr>files = Some [\<lparr>name = ''a.zip'', path = ''/x/a.zip''\<rparr>,
                        \<lparr>name = ''b.zip'', path = ''/x/b.zip''\<rparr>]\<rparr>"
        "build \<lparr>addon_paths = []\<rparr> (id :: unit \<Rightarrow> unit)"]
  by (auto simp: build_def label_prefix_def)

text \<open>
  C5: a cancelled result processed after a successful selection sets the label to its
  prefix followed by ": Cancelled!", the prefix being the one the label had before the
  selection, and the shared state's \<^verbatim>\<open>addon_paths\<close> remains the paths of that selection.
\<close>

theorem cancel_after_selection:
  assumes "fs \<noteq> []"
  shows "\<exists>self1 self2.
           pick_addons_result self \<lparr>files = Some fs\<rparr> = Inr self1 \<and>
           pick_addons_result self1 \<lparr>files = None\<rparr> = Inr self2 \<and>
           selected_addons self2 = label_prefix (selected_addons self) @ '': Cancelled!'' \<and>
           addon_paths (state self2) = map path fs"
proof -
  from assms obtain f fs' where fs: "fs = f # fs'"
    by (cases fs) auto
  obtain self1 where s1: "pick_addons_result self \<lparr>files = Some fs\<rparr> = Inr self1"
    using pick_total by blast
  obtain self2 where s2: "pick_addons_result self1 \<lparr>files = None\<rparr> = Inr self2"
    using pick_total by blast
  have pre: "label_prefix (selected_addons self1) = label_prefix (selected_addons self)"
    using s1 by (rule pick_label_prefix)
  have paths: "addon_paths (state self1) = map path fs"
    using s1 pick_selected [of "\<lparr>files = Some fs\<rparr>" f fs' self] by (auto simp: fs)
  have "selected_addons self2 = label_prefix (selected_addons self1) @ '': Cancelled!''"
    and "state self2 = state self1"
    using s2 pick_cancelled [of "\<lparr>files = None\<rparr>" self1] by auto
  with pre paths s1 s2 show ?thesis by simp
qed

theorem cancel_after_selection_witness:
  "[\<lparr>name = ''MindTheGapps.zip'', path = ''/tmp/a.zip''\<rparr>] \<noteq> [] \<and>
   (\<exists>self1 self2.
      pick_addons_result (build \<lparr>addon_paths = []\<rparr> (id :: unit \<Rightarrow> unit))
        \<lparr>files = Some [\<lparr>name = ''MindTheGapps.zip'', path = ''/tmp/a.zip''\<rparr>]\<rparr> = Inr self1 \<and>
      pick_addons_result self1 \<lparr>files = None\<rparr> = Inr self2 \<and>
      selected_addons self2 = ''Selected addons: Cancelled!'' \<and>
      addon_paths (state self2) = [''/tmp/a.zip''])"
  using cancel_after_selection
    [of "[\<lparr>name = ''MindTheGapps.zip'', path = ''/tmp/a.zip''\<rparr>]"
        "build \<lparr>addon_paths = []\<rparr> (id :: unit \<Rightarrow> unit)"]
  by (simp add: build_def label_prefix_def)

text \<open>
  C6: for every sequence of result events (selections and cancellations) that the handler
  processes, the run ends without a raise and the label's prefix, the text before the
  first colon, is the one it had before the run: only what follows it changes.
\<close>

theorem label_prefix_invariant:
  "\<exists>self'. run_events self es = Inr self' \<and>
     label_prefix (selected_addons self') = label_prefix (selected_addons self)"
proof -
  obtain self' where r: "run_events self es = Inr self'"
    using run_events_total by blast
  from run_events_label_prefix [OF r] r show ?thesis by simp
qed

text \<open>
  C7: of two selections processed one after the other, the second with a non-empty file
  list, the shared state's \<^verbatim>\<open>addon_paths\<close> afterwards holds the paths of the second list
  and nothing else: the write replaces, it does not accumulate. The first list may be any
  list here, so in particular a non-empty one different from the second.
\<close>

theorem last_selection_wins:
  assumes "fs2 \<noteq> []"
  shows "\<exists>self1 self2.
           pick_addons_result self \<lparr>files = Some fs1\<rparr> = Inr self1 \<and>
           pick_addons_result self1 \<lparr>files = Some fs2\<rparr> = Inr self2 \<and>
           addon_paths (state self2) = map path fs2 \<and>
           self_addon_paths self2 = Some (map path fs2)"
proof -
  from assms obtain f fs' where fs: "fs2 = f # fs'"
    by (cases fs2) auto
  obtain self1 where s1: "pick_addons_result self \<lparr>files = Some fs1\<rparr> = Inr self1"
    using pick_total by blast
  have "\<exists>self2. pick_addons_result self1 \<lparr>files = Some fs2\<rparr> = Inr self2 \<and>
           addon_paths (state self2) = map path fs2 \<and>
           self_addon_paths self2 = Some (map path fs2)"
    using pick_selected [of "\<lparr>files = Some fs2\<rparr>" f fs' self1] by (simp add: fs)
  with s1 show ?thesis by blast
qed

theorem last_selection_wins_witness:
  "[\<lparr>name = ''b.zip'', path = ''/x/b.zip''\<rparr>, \<lparr>name = ''c.zip'', path = ''/x/c.zip''\<rparr>] \<noteq> [] \<and>
   (\<exists>self1 self2.
      pick_addons_result (build \<lparr>addon_paths = []\<rparr> (id :: unit \<Rightarrow> unit))
        \<lparr>files = Some [\<lparr>name = ''a.zip'', path = ''/x/a.zip''\<rparr>]\<rparr> = Inr self1 \<and>
      pick_addons_result self1
        \<lparr>files = Some [\<lparr>name = ''b.zip'', path = ''/x/b.zip''\<rparr>,
                        \<lparr>name = ''c.zip'', path = ''/x/c.zip''\<rparr>]\<rparr> = Inr self2 \<and>
      addon_paths (state self2) = [''/x/b.zip'', ''/x/c.zip''] \<and>
      self_addon_paths self2 = Some [''/x/b.zip'', ''/x/c.zip''])"
  using last_selection_wins
    [of "[\<lparr>name = ''b.zip'', path = ''/x/b.zip''\<rparr>, \<lparr>name = ''c.zip'', path = ''/x/c.zip''\<rparr>]"
        "build \<lparr>addon_paths = []\<rparr> (id :: unit \<Rightarrow> unit)"
        "[\<lparr>name = ''a.zip'', path = ''/x/a.zip''\<rparr>]"]
  by simp

text \<open>
  C8: activating the confirm control calls the supplied callback, once, and nothing else:
  right after the view is built, with no selection made, and after any sequence of picker
  results. With a counter as the world and its successor as the callback, one activation
  counts one call.
\<close>

theorem confirm_calls_callback_once:
  "click_confirm (build st confirm_func) w = confirm_func w \<and>
   (\<exists>self'. run_events (build st confirm_func) es = Inr self' \<and>
      click_confirm self' w = confirm_func w) \<and>
   (\<exists>self'. run_events (build st Suc) es = Inr self' \<and>
      click_confirm self' n = Suc n)"
  by (intro conjI click_confirm_build click_confirm_run_events)

text \<open>
  C9: the handler of the pick button opens the file picker, each time, with several files
  allowed and the allowed extensions being exactly "zip".
\<close>

theorem pick_button_opens_zip_picker:
  "\<exists>c. calls (pick_addons_dialog (pick_button_on_click self)) =
          calls (pick_addons_dialog self) @ [c] \<and>
        allow_multiple c \<and> file_type c = ''custom'' \<and>
        set (allowed_extensions c) = {''zip''}"
  by (simp add: pick_button_on_click_def pick_files_def)

text \<open>
  C10: right after \<^verbatim>\<open>build\<close> the label is exactly "Selected addons: ", its prefix is
  "Selected addons"; so after the first result event, whatever it is, the label begins
  with "Selected addons: ", and after an immediate cancellation it is
  "Selected addons: Cancelled!".
\<close>

theorem initial_label:
  "selected_addons (build st confirm_func) = ''Selected addons: '' \<and>
   label_prefix (selected_addons (build st confirm_func)) = ''Selected addons'' \<and>
   (\<exists>self' suffix. pick_addons_result (build st confirm_func) e = Inr self' \<and>
      selected_addons self' = ''Selected addons: '' @ suffix) \<and>
   (\<exists>self'. pick_addons_result (build st confirm_func) \<lparr>files = None\<rparr> = Inr self' \<and>
      selected_addons self' = ''Selected addons: Cancelled!'')"
proof -
  have pre: "label_prefix (selected_addons (build st confirm_func)) = ''Selected addons''"
    by (simp add: build_def label_prefix_def)
  have first: "\<exists>self' suffix. pick_addons_result (build st confirm_func) e = Inr self' \<and>
      selected_addons self' = ''Selected addons: '' @ suffix"
  proof (cases e rule: files_cases)
    case cancelled
    show ?thesis by (simp add: pick_cancelled [OF cancelled] pre)
  next
    case (selected f fs)
    show ?thesis by (simp add: pick_selected [OF selected] pre)
  qed
  have cancel: "\<exists>self'. pick_addons_result (build st confirm_func) \<lparr>files = None\<rparr> = Inr self' \<and>
      selected_addons self' = ''Selected addons: Cancelled!''"
    by (simp add: pick_cancelled pre)
  from pre first cancel show ?thesis by (simp add: build_def)
qed

end
